theory Spec2Isabelle
  imports Main
begin

section \<open>Errors\<close>

text \<open>
  Modelled from the spec: the web package's error types (\<^verbatim>\<open>web.Error\<close>,
  \<^verbatim>\<open>web.NewRequestError\<close>, \<^verbatim>\<open>web.NewShutdownError\<close>) are not under src/. The spec has an
  error that carries its HTTP status and, for validation failures, a list of field and
  message pairs (\<^verbatim>\<open>web_Error\<close>, with the three fields \<^verbatim>\<open>Err\<close>, \<^verbatim>\<open>Status\<close>, \<^verbatim>\<open>Fields\<close> that
  \<^verbatim>\<open>RespondError\<close> reads), and one specially-flagged kind, the integrity fault, that asks
  for shutdown (\<^verbatim>\<open>NewShutdownError\<close>).

  The other constructors are the errors the sources under src/ build. The three
  sentinels of \<^verbatim>\<open>internal/product\<close> are compared by identity in the source
  (\<^verbatim>\<open>switch err { case product.ErrNotFound: ... }\<close>), so each is a constructor of its own.
  \<^verbatim>\<open>ErrNoRows\<close> is \<^verbatim>\<open>sql.ErrNoRows\<close>; \<^verbatim>\<open>DriverError\<close> is any other error that
  \<^verbatim>\<open>database/sql\<close> hands back (lost connection, constraint violation, cancelled context);
  \<^verbatim>\<open>IOError\<close> is an error of the response writer. \<^verbatim>\<open>errors_New\<close> is \<^verbatim>\<open>errors.New\<close>,
  \<^verbatim>\<open>Wrap\<close> is \<^verbatim>\<open>errors.Wrap\<close>/\<^verbatim>\<open>errors.Wrapf\<close> with the fixed text of the message it adds
  (the formatted arguments are left out).
\<close>

datatype err =
    ErrNotFound
  | ErrInvalidID
  | ErrForbidden
  | ErrNoRows
  | DriverError string
  | IOError string
  | errors_New string
  | Wrap err string
  | web_Error err nat "(string \<times> string) list"
  | NewShutdownError string

text \<open>
  Modelled from the spec: \<^verbatim>\<open>web.NewRequestError\<close> is not under src/. It makes the error
  that carries the given status, with no field errors.
\<close>

definition NewRequestError :: "err \<Rightarrow> nat \<Rightarrow> err" where
  "NewRequestError e status = web_Error e status []"

text \<open>\<^verbatim>\<open>errors.Cause\<close>: the innermost error under the wrappers.\<close>

fun Cause :: "err \<Rightarrow> err" where
  "Cause (Wrap e m) = Cause e"
| "Cause e = e"

text \<open>
  Modelled from the spec: \<^verbatim>\<open>web.IsShutdown\<close> is not under src/. It tells whether an
  error is of the specially-flagged kind; the cause is looked at, as \<^verbatim>\<open>RespondError\<close>
  does for request errors.
\<close>

definition IsShutdown :: "err \<Rightarrow> bool" where
  "IsShutdown e = (case Cause e of NewShutdownError m \<Rightarrow> True | _ \<Rightarrow> False)"

section \<open>Data model\<close>

type_synonym Time = int

text \<open>
  Modelled from the spec: the declaration of \<^verbatim>\<open>auth.Claims\<close>, its method \<^verbatim>\<open>HasRole\<close> and
  the constant \<^verbatim>\<open>auth.RoleAdmin\<close> are not under src/. Claims carry a subject identifier
  and a set of role names; holding a role is membership.
\<close>

record Claims =
  Roles :: "string list"
  Subject :: string

definition RoleAdmin :: string where
  "RoleAdmin = ''ADMIN''"

definition HasRole :: "Claims \<Rightarrow> string \<Rightarrow> bool" where
  "HasRole c r = (r \<in> set (Roles c))"

text \<open>
  Modelled from the spec: the struct declarations \<^verbatim>\<open>NewProduct\<close>, \<^verbatim>\<open>UpdateProduct\<close> and
  \<^verbatim>\<open>Product\<close> (the product package's models) are not under src/. Their fields are the
  ones \<^verbatim>\<open>Create\<close> and \<^verbatim>\<open>Update\<close> read and write and the columns the queries select.
  The fields of \<^verbatim>\<open>UpdateProduct\<close> are pointers in the source; \<^verbatim>\<open>nil\<close> is \<^verbatim>\<open>None\<close>.
\<close>

record NewProduct =
  Name :: string
  Cost :: int
  Quantity :: int

record UpdateProduct =
  Name :: "string option"
  Cost :: "int option"
  Quantity :: "int option"

record Product =
  ID :: string
  Name :: string
  Cost :: int
  Quantity :: int
  UserID :: string
  Sold :: int
  Revenue :: int
  DateCreated :: Time
  DateUpdated :: Time

text \<open>The zero value of \<^verbatim>\<open>var p Product\<close>.\<close>

definition zero_Product :: Product where
  "zero_Product = \<lparr>ID = [], Name = [], Cost = 0, Quantity = 0, UserID = [],
     Sold = 0, Revenue = 0, DateCreated = 0, DateUpdated = 0\<rparr>"

section \<open>The relational store\<close>

text \<open>
  The store behind \<^verbatim>\<open>*sqlx.DB\<close>, as far as the statements of the product package see
  it: the rows of \<^verbatim>\<open>products\<close> with the seven columns of the \<^verbatim>\<open>INSERT\<close>, the rows of
  \<^verbatim>\<open>sales\<close> with the columns the aggregate reads, and the list of statements sent so far.
  The schema of the two tables is not part of the sources: rows are matched by the text of
  the identifier, and whatever the store refuses (a constraint, a lost connection) shows
  as the error it reports for the statement.
\<close>

record product_row =
  p_product_id :: string
  p_name :: string
  p_cost :: int
  p_quantity :: int
  p_user_id :: string
  p_date_created :: Time
  p_date_updated :: Time

record sale_row =
  s_product_id :: string
  s_quantity :: int
  s_paid :: int

datatype stmt =
    SELECT_product string
  | INSERT_product product_row
  | UPDATE_product string string int int Time
  | DELETE_product string

record DB =
  products :: "product_row list"
  sales :: "sale_row list"
  sent :: "stmt list"

text \<open>
  Every statement takes the error the store reports for it, if any (\<^verbatim>\<open>fault\<close>): the
  store is an external collaborator and may fail at each call.
\<close>

definition send :: "DB \<Rightarrow> stmt \<Rightarrow> DB" where
  "send db q = db\<lparr>sent := sent db @ [q]\<rparr>"

text \<open>
  The \<^verbatim>\<open>SELECT\<close> of \<^verbatim>\<open>Retrieve\<close> through \<^verbatim>\<open>db.GetContext(ctx, &p, q, id)\<close>: the columns
  it names are scanned into the zero-valued \<^verbatim>\<open>p\<close>; \<^verbatim>\<open>COALESCE(SUM(..), 0)\<close> over the
  left join is the sum over the sales of that product, 0 when there are none. The
  column \<^verbatim>\<open>user_id\<close> is not in the select list.
\<close>

definition sold_of :: "DB \<Rightarrow> string \<Rightarrow> int" where
  "sold_of db pid = sum_list (map s_quantity (filter (\<lambda>s. s_product_id s = pid) (sales db)))"

definition revenue_of :: "DB \<Rightarrow> string \<Rightarrow> int" where
  "revenue_of db pid = sum_list (map s_paid (filter (\<lambda>s. s_product_id s = pid) (sales db)))"

definition scan :: "DB \<Rightarrow> product_row \<Rightarrow> Product" where
  "scan db r = zero_Product\<lparr>ID := p_product_id r, Name := p_name r, Cost := p_cost r,
     Quantity := p_quantity r, Sold := sold_of db (p_product_id r),
     Revenue := revenue_of db (p_product_id r),
     DateCreated := p_date_created r, DateUpdated := p_date_updated r\<rparr>"

definition GetContext :: "DB \<Rightarrow> string option \<Rightarrow> string \<Rightarrow> (err + Product) \<times> DB" where
  "GetContext db fault pid =
     (case fault of
        Some m \<Rightarrow> (Inl (DriverError m), send db (SELECT_product pid))
      | None \<Rightarrow>
          (case filter (\<lambda>r. p_product_id r = pid) (products db) of
             [] \<Rightarrow> (Inl ErrNoRows, send db (SELECT_product pid))
           | r # rs \<Rightarrow> (Inr (scan db r), send db (SELECT_product pid))))"

text \<open>
  The three statements sent through \<^verbatim>\<open>db.ExecContext\<close>. A statement the store reports
  an error for changes no row. \<^verbatim>\<open>UPDATE\<close> and \<^verbatim>\<open>DELETE\<close> act on the rows whose
  \<^verbatim>\<open>product_id\<close> is the parameter \<^verbatim>\<open>$1\<close>, none when no row has it; the \<^verbatim>\<open>UPDATE\<close> sets
  the four columns it names and no other.
\<close>

definition ExecInsert :: "DB \<Rightarrow> string option \<Rightarrow> product_row \<Rightarrow> err option \<times> DB" where
  "ExecInsert db fault r =
     (case fault of
        Some m \<Rightarrow> (Some (DriverError m), send db (INSERT_product r))
      | None \<Rightarrow> (None, (send db (INSERT_product r))\<lparr>products := products db @ [r]\<rparr>))"

definition set_columns :: "string \<Rightarrow> string \<Rightarrow> int \<Rightarrow> int \<Rightarrow> Time \<Rightarrow> product_row \<Rightarrow> product_row" where
  "set_columns pid n c q t r =
     (if p_product_id r = pid
      then r\<lparr>p_name := n, p_cost := c, p_quantity := q, p_date_updated := t\<rparr>
      else r)"

definition ExecUpdate ::
  "DB \<Rightarrow> string option \<Rightarrow> string \<Rightarrow> string \<Rightarrow> int \<Rightarrow> int \<Rightarrow> Time \<Rightarrow> err option \<times> DB" where
  "ExecUpdate db fault pid n c q t =
     (case fault of
        Some m \<Rightarrow> (Some (DriverError m), send db (UPDATE_product pid n c q t))
      | None \<Rightarrow> (None, (send db (UPDATE_product pid n c q t))
                  \<lparr>products := map (set_columns pid n c q t) (products db)\<rparr>))"

definition ExecDelete :: "DB \<Rightarrow> string option \<Rightarrow> string \<Rightarrow> err option \<times> DB" where
  "ExecDelete db fault pid =
     (case fault of
        Some m \<Rightarrow> (Some (DriverError m), send db (DELETE_product pid))
      | None \<Rightarrow> (None, (send db (DELETE_product pid))
                  \<lparr>products := filter (\<lambda>r. p_product_id r \<noteq> pid) (products db)\<rparr>))"

section \<open>The product package\<close>

text \<open>
  \<^verbatim>\<open>uuid.Parse\<close> and \<^verbatim>\<open>uuid.New\<close> belong to the library \<^verbatim>\<open>github.com/google/uuid\<close>:
  the operations take the first as the predicate \<^verbatim>\<open>uuid_Parse\<close> (true when parsing gives
  no error) and the string of the second, \<^verbatim>\<open>uuid.New().String()\<close>, as \<^verbatim>\<open>new_id\<close>.
  \<^verbatim>\<open>fault\<close> arguments are the store's answers, one for each statement in the order sent.
\<close>

definition Retrieve ::
  "(string \<Rightarrow> bool) \<Rightarrow> DB \<Rightarrow> string option \<Rightarrow> string \<Rightarrow> (err + Product) \<times> DB" where
  "Retrieve uuid_Parse db fault pid =
     (if \<not> uuid_Parse pid then (Inl ErrInvalidID, db)
      else
        (case GetContext db fault pid of
           (Inl e, db') \<Rightarrow> if e = ErrNoRows then (Inl ErrNotFound, db') else (Inl e, db')
         | (Inr p, db') \<Rightarrow> (Inr p, db')))"

definition Create ::
  "DB \<Rightarrow> string option \<Rightarrow> string \<Rightarrow> Claims \<Rightarrow> NewProduct \<Rightarrow> Time \<Rightarrow> (err + Product) \<times> DB" where
  "Create db fault new_id user np now =
     (let p = \<lparr>ID = new_id, Name = NewProduct.Name np, Cost = NewProduct.Cost np,
                Quantity = NewProduct.Quantity np, UserID = Subject user,
                Sold = 0, Revenue = 0, DateCreated = now, DateUpdated = now\<rparr>
      in
        (case ExecInsert db fault
                \<lparr>p_product_id = ID p, p_name = Name p, p_cost = Cost p,
                 p_quantity = Quantity p, p_user_id = UserID p,
                 p_date_created = DateCreated p, p_date_updated = DateUpdated p\<rparr> of
           (Some e, db') \<Rightarrow> (Inl (Wrap e ''inserting product''), db')
         | (None, db') \<Rightarrow> (Inr p, db')))"

definition merge :: "UpdateProduct \<Rightarrow> Time \<Rightarrow> Product \<Rightarrow> Product" where
  "merge update now p =
     (let p1 = (case UpdateProduct.Name update of Some n \<Rightarrow> p\<lparr>Name := n\<rparr> | None \<Rightarrow> p);
          p2 = (case UpdateProduct.Cost update of Some c \<Rightarrow> p1\<lparr>Cost := c\<rparr> | None \<Rightarrow> p1);
          p3 = (case UpdateProduct.Quantity update of Some q \<Rightarrow> p2\<lparr>Quantity := q\<rparr> | None \<Rightarrow> p2)
      in p3\<lparr>DateUpdated := now\<rparr>)"

definition Update ::
  "(string \<Rightarrow> bool) \<Rightarrow> DB \<Rightarrow> string option \<Rightarrow> string option \<Rightarrow> Claims \<Rightarrow> string \<Rightarrow>
     UpdateProduct \<Rightarrow> Time \<Rightarrow> err option \<times> DB" where
  "Update uuid_Parse db fault1 fault2 user pid update now =
     (case Retrieve uuid_Parse db fault1 pid of
        (Inl e, db1) \<Rightarrow> (Some e, db1)
      | (Inr p, db1) \<Rightarrow>
          if \<not> HasRole user RoleAdmin \<and> UserID p \<noteq> Subject user then (Some ErrForbidden, db1)
          else
            (let p' = merge update now p in
               (case ExecUpdate db1 fault2 pid (Name p') (Cost p') (Quantity p') (DateUpdated p') of
                  (Some e, db2) \<Rightarrow> (Some (Wrap e ''updating product''), db2)
                | (None, db2) \<Rightarrow> (None, db2))))"

definition Delete :: "(string \<Rightarrow> bool) \<Rightarrow> DB \<Rightarrow> string option \<Rightarrow> string \<Rightarrow> err option \<times> DB" where
  "Delete uuid_Parse db fault pid =
     (if \<not> uuid_Parse pid then (Some ErrInvalidID, db)
      else
        (case ExecDelete db fault pid of
           (Some e, db') \<Rightarrow> (Some (Wrap e ''deleting product''), db')
         | (None, db') \<Rightarrow> (None, db')))"

text \<open>
  The canonical text form of a UUID, \<^verbatim>\<open>xxxxxxxx-xxxx-xxxx-xxxx-xxxxxxxxxxxx\<close> in hexadecimal
  digits: the form \<^verbatim>\<open>uuid.New().String()\<close> prints and one that \<^verbatim>\<open>uuid.Parse\<close> accepts. It
  stands for \<^verbatim>\<open>uuid_Parse\<close> where the operations are run on concrete identifiers.
\<close>

definition hex_digit :: "char \<Rightarrow> bool" where
  "hex_digit c = (c \<in> set ''0123456789abcdefABCDEF'')"

definition canonical_uuid :: "string \<Rightarrow> bool" where
  "canonical_uuid s =
     (length s = 36 \<and>
      list_all (\<lambda>i. if i \<in> set [8, 13, 18, 23] then s ! i = CHR ''-'' else hex_digit (s ! i))
        [0..<36])"

section \<open>The web package\<close>

text \<open>
  The per-request context carries two values: the \<^verbatim>\<open>*Values\<close> that \<^verbatim>\<open>Handle\<close> stores
  under \<^verbatim>\<open>web.KeyValues\<close> and the claims stored under \<^verbatim>\<open>auth.Key\<close>. A value that is absent
  (the type assertion of the source gives \<^verbatim>\<open>ok = false\<close>) is \<^verbatim>\<open>None\<close>. \<^verbatim>\<open>Values\<close> is
  reached through a pointer and \<^verbatim>\<open>Respond\<close> writes to it, so the functions return the
  context with it.
\<close>

record Values =
  StatusCode :: nat
  Start :: Time
  TraceID :: string

record Context =
  KeyValues :: "Values option"
  auth_Key :: "Claims option"

text \<open>
  A request, as far as the handlers read it: its context, the URL parameter \<^verbatim>\<open>id\<close> and
  its body. The response writer records the header fields set, the status written and
  the documents written; \<^verbatim>\<open>write_error\<close> is the error its \<^verbatim>\<open>Write\<close> gives, if any.
\<close>

record Request =
  r_Context :: Context
  URLParam_id :: string
  Body :: string

record ResponseWriter =
  Header :: "(string \<times> string) list"
  status :: "nat option"
  written :: "string list"
  write_error :: "string option"

definition WriteHeader :: "ResponseWriter \<Rightarrow> nat \<Rightarrow> ResponseWriter" where
  "WriteHeader w code = (case status w of None \<Rightarrow> w\<lparr>status := Some code\<rparr> | Some c \<Rightarrow> w)"

text \<open>The values handed to \<^verbatim>\<open>Respond\<close> as \<^verbatim>\<open>val interface{}\<close>.\<close>

record ErrorResponse =
  Error :: string
  Fields :: "(string \<times> string) list"

datatype val = nil | ProductVal Product | ErrorResponseVal ErrorResponse

text \<open>
  \<^verbatim>\<open>Respond\<close> of response.go. \<^verbatim>\<open>json.Marshal\<close> is the standard library's: the function
  takes it as \<^verbatim>\<open>json_Marshal\<close>.
\<close>

definition Respond ::
  "(val \<Rightarrow> err + string) \<Rightarrow> Context \<Rightarrow> ResponseWriter \<Rightarrow> val \<Rightarrow> nat \<Rightarrow>
     err option \<times> Context \<times> ResponseWriter" where
  "Respond json_Marshal ctx w v statusCode =
     (case KeyValues ctx of
        None \<Rightarrow> (Some (errors_New ''web values missing from context''), ctx, w)
      | Some vs \<Rightarrow>
          (let ctx' = ctx\<lparr>KeyValues := Some (vs\<lparr>StatusCode := statusCode\<rparr>)\<rparr> in
             if statusCode = 204 then (None, ctx', WriteHeader w statusCode)
             else
               (case json_Marshal v of
                  Inl e \<Rightarrow> (Some (Wrap e ''marshaling value to json''), ctx', w)
                | Inr data \<Rightarrow>
                    (let w1 = WriteHeader
                           (w\<lparr>Header := (''content-type'', ''application/json; charset=utf-8'') # Header w\<rparr>)
                           statusCode
                     in
                       (case write_error w1 of
                          Some m \<Rightarrow> (Some (Wrap (IOError m) ''writing to client''), ctx', w1)
                        | None \<Rightarrow> (None, ctx', w1\<lparr>written := written w1 @ [data]\<rparr>))))))"

text \<open>The text of an error, \<^verbatim>\<open>err.Error()\<close>.\<close>

fun Error_text :: "err \<Rightarrow> string" where
  "Error_text ErrNotFound = ''product not found''"
| "Error_text ErrInvalidID = ''id provided was not a valid UUID''"
| "Error_text ErrForbidden = ''attempted action is not allowed''"
| "Error_text ErrNoRows = ''sql: no rows in result set''"
| "Error_text (DriverError m) = m"
| "Error_text (IOError m) = m"
| "Error_text (errors_New m) = m"
| "Error_text (Wrap e m) = m @ '': '' @ Error_text e"
| "Error_text (web_Error e st fs) = Error_text e"
| "Error_text (NewShutdownError m) = m"

definition RespondError ::
  "(val \<Rightarrow> err + string) \<Rightarrow> Context \<Rightarrow> ResponseWriter \<Rightarrow> err \<Rightarrow>
     err option \<times> Context \<times> ResponseWriter" where
  "RespondError json_Marshal ctx w e =
     (case Cause e of
        web_Error e' st fs \<Rightarrow>
          Respond json_Marshal ctx w (ErrorResponseVal \<lparr>Error = Error_text e', Fields = fs\<rparr>) st
      | _ \<Rightarrow>
          Respond json_Marshal ctx w
            (ErrorResponseVal \<lparr>Error = ''Internal Server Error'', Fields = []\<rparr>) 500)"

text \<open>
  A buffered channel of signals, \<^verbatim>\<open>make(chan os.Signal, n)\<close>: the values it holds,
  oldest first, and its capacity. A send \<^verbatim>\<open>c <- s\<close> puts the value in the buffer when
  there is room; when the buffer is full the sender blocks, which is the result \<^verbatim>\<open>None\<close>:
  the send has put nothing in the channel and the function that sends does not return.
\<close>

datatype Signal = SIGSTOP | SIGTERM | Interrupt

record Chan =
  buf :: "Signal list"
  cap :: nat

definition chan_send :: "Chan \<Rightarrow> Signal \<Rightarrow> Chan option" where
  "chan_send c s = (if length (buf c) < cap c then Some (c\<lparr>buf := buf c @ [s]\<rparr>) else None)"

text \<open>
  The application: its log and its \<^verbatim>\<open>shutdown\<close> channel. A handler of the application is
  run on the context, the response writer and the request; the store it holds
  (\<^verbatim>\<open>p.DB\<close>) is passed along.
\<close>

datatype log_line = Unhandled_error string err | Println string

record App =
  log :: "log_line list"
  shutdown :: Chan

type_synonym Handler =
  "Context \<Rightarrow> ResponseWriter \<Rightarrow> Request \<Rightarrow> DB \<Rightarrow> err option \<times> Context \<times> ResponseWriter \<times> DB"

text \<open>
  \<^verbatim>\<open>SignalShutdown\<close> prints its line and then sends \<^verbatim>\<open>SIGSTOP\<close> on the channel: it
  returns the application after the send, or blocks in the send (\<^verbatim>\<open>None\<close>).
\<close>

definition SignalShutdown :: "App \<Rightarrow> App option" where
  "SignalShutdown a =
     (let a' = a\<lparr>log := log a @
         [Println ''error returned from handler indicated integrity issue, shutting down service'']\<rparr>
      in
        (case chan_send (shutdown a') SIGSTOP of
           None \<Rightarrow> None
         | Some c \<Rightarrow> Some (a'\<lparr>shutdown := c\<rparr>)))"

text \<open>
  The function \<^verbatim>\<open>fn\<close> that \<^verbatim>\<open>Handle\<close> registers for a route; \<^verbatim>\<open>h\<close> is the handler chain,
  the route's handler inside its middleware. \<^verbatim>\<open>trace_id\<close> and \<^verbatim>\<open>now\<close> are the span's
  trace identifier and \<^verbatim>\<open>time.Now()\<close>. The result is \<^verbatim>\<open>None\<close> when the function does
  not return because \<^verbatim>\<open>SignalShutdown\<close> blocks.
\<close>

definition Handle_fn ::
  "App \<Rightarrow> Handler \<Rightarrow> string \<Rightarrow> Time \<Rightarrow> ResponseWriter \<Rightarrow> Request \<Rightarrow> DB \<Rightarrow>
     (App \<times> ResponseWriter \<times> DB) option" where
  "Handle_fn a h trace_id now w r db =
     (let v = \<lparr>StatusCode = 0, Start = now, TraceID = trace_id\<rparr>;
          ctx = (r_Context r)\<lparr>KeyValues := Some v\<rparr>
      in
        (case h ctx w r db of
           (None, ctx', w', db') \<Rightarrow> Some (a, w', db')
         | (Some e, ctx', w', db') \<Rightarrow>
             (let a' = a\<lparr>log := log a @ [Unhandled_error (TraceID v) e]\<rparr> in
                if IsShutdown e
                then (case SignalShutdown a' of
                        None \<Rightarrow> None
                      | Some a'' \<Rightarrow> Some (a'', w', db'))
                else Some (a', w', db'))))"

text \<open>The handler chain returned an error that \<^verbatim>\<open>IsShutdown\<close> flags.\<close>

definition flagged :: "err option \<Rightarrow> bool" where
  "flagged res = (case res of None \<Rightarrow> False | Some e \<Rightarrow> IsShutdown e)"

section \<open>The product handlers\<close>

text \<open>
  \<^verbatim>\<open>web.Decode\<close> is not under src/: the handlers take the function that decodes and
  validates a request body as \<^verbatim>\<open>Decode\<close>. \<^verbatim>\<open>now\<close> is \<^verbatim>\<open>time.Now()\<close>.
\<close>

definition handlers_Create ::
  "(val \<Rightarrow> err + string) \<Rightarrow> (Request \<Rightarrow> err + NewProduct) \<Rightarrow> Time \<Rightarrow> string \<Rightarrow>
     string option \<Rightarrow> Handler" where
  "handlers_Create json_Marshal Decode now new_id fault ctx w r db =
     (case auth_Key ctx of
        None \<Rightarrow> (Some (NewShutdownError ''auth claim is not in context''), ctx, w, db)
      | Some claims \<Rightarrow>
          (case Decode r of
             Inl e \<Rightarrow> (Some e, ctx, w, db)
           | Inr np \<Rightarrow>
               (case Create db fault new_id claims np now of
                  (Inl e, db') \<Rightarrow> (Some e, ctx, w, db')
                | (Inr p, db') \<Rightarrow>
                    (case Respond json_Marshal ctx w (ProductVal p) 201 of
                       (res, ctx', w') \<Rightarrow> (res, ctx', w', db')))))"

definition handlers_Update ::
  "(string \<Rightarrow> bool) \<Rightarrow> (val \<Rightarrow> err + string) \<Rightarrow> (Request \<Rightarrow> err + UpdateProduct) \<Rightarrow> Time \<Rightarrow>
     string option \<Rightarrow> string option \<Rightarrow> Handler" where
  "handlers_Update uuid_Parse json_Marshal Decode now fault1 fault2 ctx w r db =
     (let pid = URLParam_id r in
        (case auth_Key ctx of
           None \<Rightarrow> (Some (errors_New ''claims is not in context''), ctx, w, db)
         | Some claims \<Rightarrow>
             (case Decode r of
                Inl e \<Rightarrow> (Some (Wrap e ''decoding product update''), ctx, w, db)
              | Inr update \<Rightarrow>
                  (case Update uuid_Parse db fault1 fault2 claims pid update now of
                     (Some e, db') \<Rightarrow>
                       (if e = ErrNotFound then (Some (NewRequestError e 404), ctx, w, db')
                        else if e = ErrInvalidID then (Some (NewRequestError e 400), ctx, w, db')
                        else if e = ErrForbidden then (Some (NewRequestError e 403), ctx, w, db')
                        else (Some (Wrap e ''updating product''), ctx, w, db'))
                   | (None, db') \<Rightarrow>
                       (case Respond json_Marshal ctx w nil 204 of
                          (res, ctx', w') \<Rightarrow> (res, ctx', w', db'))))))"

definition handlers_Delete ::
  "(string \<Rightarrow> bool) \<Rightarrow> (val \<Rightarrow> err + string) \<Rightarrow> string option \<Rightarrow> Handler" where
  "handlers_Delete uuid_Parse json_Marshal fault ctx w r db =
     (let pid = URLParam_id r in
        (case Delete uuid_Parse db fault pid of
           (Some e, db') \<Rightarrow>
             (if e = ErrInvalidID then (Some (NewRequestError e 400), ctx, w, db')
              else (Some (Wrap e ''deleting product''), ctx, w, db'))
         | (None, db') \<Rightarrow>
             (case Respond json_Marshal ctx w nil 204 of
                (res, ctx', w') \<Rightarrow> (res, ctx', w', db'))))"

section \<open>Store predicates and a sample store\<close>

text \<open>No row of \<^verbatim>\<open>products\<close> has the identifier; no row of \<^verbatim>\<open>sales\<close> refers to it.\<close>

definition no_row :: "DB \<Rightarrow> string \<Rightarrow> bool" where
  "no_row db pid = (filter (\<lambda>r. p_product_id r = pid) (products db) = [])"

definition no_sales :: "DB \<Rightarrow> string \<Rightarrow> bool" where
  "no_sales db pid = (filter (\<lambda>s. s_product_id s = pid) (sales db) = [])"

text \<open>The store with the owners of its products renamed by \<^verbatim>\<open>g\<close>.\<close>

definition reown :: "(string \<Rightarrow> string) \<Rightarrow> DB \<Rightarrow> DB" where
  "reown g db = db\<lparr>products := map (\<lambda>r. r\<lparr>p_user_id := g (p_user_id r)\<rparr>) (products db)\<rparr>"

text \<open>
  A store with one product, a chair that user \<^verbatim>\<open>u1\<close> created, and no sales; two callers
  without the admin role, the owner and a stranger, and an admin; a partial update that
  renames the product.
\<close>

definition chair_id :: string where
  "chair_id = ''a2b0639f-2cc6-44b8-b97b-15d69dbb511e''"

definition other_id :: string where
  "other_id = ''72f8b983-3eb4-48db-9ed0-e45cc6bd716b''"

definition chair_row :: product_row where
  "chair_row = \<lparr>p_product_id = chair_id, p_name = ''Chair'', p_cost = 1000, p_quantity = 5,
     p_user_id = ''u1'', p_date_created = 1, p_date_updated = 1\<rparr>"

definition chair_db :: DB where
  "chair_db = \<lparr>products = [chair_row], sales = [], sent = []\<rparr>"

definition owner_u1 :: Claims where
  "owner_u1 = \<lparr>Roles = [''USER''], Subject = ''u1''\<rparr>"

definition stranger_u2 :: Claims where
  "stranger_u2 = \<lparr>Roles = [''USER''], Subject = ''u2''\<rparr>"

definition admin_u3 :: Claims where
  "admin_u3 = \<lparr>Roles = [''ADMIN''], Subject = ''u3''\<rparr>"

definition rename_to_stool :: UpdateProduct where
  "rename_to_stool = \<lparr>UpdateProduct.Name = Some ''Stool'', UpdateProduct.Cost = None,
     UpdateProduct.Quantity = None\<rparr>"

definition new_chair :: NewProduct where
  "new_chair = \<lparr>NewProduct.Name = ''Chair'', NewProduct.Cost = 1000, NewProduct.Quantity = 5\<rparr>"

text \<open>
  A request that reaches a handler with no claims in its context, a response writer
  nothing was written to and an encoder that always succeeds; the shutdown channel as
  \<^verbatim>\<open>run\<close> in main.go makes it, \<^verbatim>\<open>make(chan os.Signal, 1)\<close>, an application that logged
  nothing with that channel empty and one with it full, a termination signal waiting in
  it; a handler chain that returns an integrity fault and one that returns a plain error.
\<close>

definition no_claims_ctx :: Context where
  "no_claims_ctx = \<lparr>KeyValues = Some \<lparr>StatusCode = 0, Start = 0, TraceID = ''t1''\<rparr>,
     auth_Key = None\<rparr>"

definition bare_request :: Request where
  "bare_request = \<lparr>r_Context = \<lparr>KeyValues = None, auth_Key = None\<rparr>,
     URLParam_id = chair_id, Body = ''{}''\<rparr>"

definition fresh_writer :: ResponseWriter where
  "fresh_writer = \<lparr>Header = [], status = None, written = [], write_error = None\<rparr>"

definition main_shutdown :: Chan where
  "main_shutdown = \<lparr>buf = [], cap = 1\<rparr>"

definition fresh_app :: App where
  "fresh_app = \<lparr>log = [], shutdown = main_shutdown\<rparr>"

definition full_app :: App where
  "full_app = \<lparr>log = [], shutdown = main_shutdown\<lparr>buf := [SIGTERM]\<rparr>\<rparr>"

definition chain_integrity :: Handler where
  "chain_integrity ctx w r db = (Some (NewShutdownError ''integrity''), ctx, w, db)"

definition chain_plain :: Handler where
  "chain_plain ctx w r db = (Some (errors_New ''plain''), ctx, w, db)"

definition marshal_ok :: "val \<Rightarrow> err + string" where
  "marshal_ok v = Inr ''{}''"

definition decode_new_chair :: "Request \<Rightarrow> err + NewProduct" where
  "decode_new_chair r = Inr new_chair"

definition decode_rename :: "Request \<Rightarrow> err + UpdateProduct" where
  "decode_rename r = Inr rename_to_stool"

section \<open>Facts about the sample data and the statements\<close>

lemma canonical_chair_id: "canonical_uuid chair_id"
  by (simp add: canonical_uuid_def hex_digit_def chair_id_def upt_rec)

lemma canonical_other_id: "canonical_uuid other_id"
  by (simp add: canonical_uuid_def hex_digit_def other_id_def upt_rec)

lemma not_canonical_abc: "\<not> canonical_uuid ''abc''"
  by (simp add: canonical_uuid_def)

lemma no_row_other: "no_row chair_db other_id"
  by (simp add: no_row_def chair_db_def chair_row_def chair_id_def other_id_def)

lemma no_sales_chair_db: "no_sales chair_db other_id"
  by (simp add: no_sales_def chair_db_def)

lemma filter_neq_id:
  "filter (\<lambda>r. p_product_id r = pid) rows = [] \<Longrightarrow>
   filter (\<lambda>r. p_product_id r \<noteq> pid) rows = rows"
  by (induction rows) (auto split: if_splits)

lemma reown_filter:
  "filter (\<lambda>r. p_product_id r \<noteq> pid) (map (\<lambda>r. r\<lparr>p_user_id := g (p_user_id r)\<rparr>) rows) =
   map (\<lambda>r. r\<lparr>p_user_id := g (p_user_id r)\<rparr>) (filter (\<lambda>r. p_product_id r \<noteq> pid) rows)"
  by (induction rows) auto

section \<open>Update and the ownership rule\<close>

text \<open>
  What the ownership check of \<^verbatim>\<open>Update\<close> compares: the product that \<^verbatim>\<open>Retrieve\<close> loads
  has the zero value in \<^verbatim>\<open>UserID\<close>, whoever owns the row, because the select list has
  no \<^verbatim>\<open>user_id\<close>. So for a caller without the admin role and an existing product, the
  store answering, \<^verbatim>\<open>Update\<close> gives \<^verbatim>\<open>ErrForbidden\<close> exactly when the caller's subject is
  not the empty string; the owner of the row plays no part.
\<close>

lemma Retrieve_UserID_empty:
  "Retrieve uuid_Parse db fault pid = (Inr p, db') \<Longrightarrow> UserID p = []"
  by (auto simp add: Retrieve_def GetContext_def scan_def zero_Product_def
        split: if_splits option.splits list.splits)

lemma Update_non_admin_Forbidden_iff:
  assumes "uuid_Parse pid" and "\<not> no_row db pid" and "\<not> HasRole user RoleAdmin"
  shows "fst (Update uuid_Parse db None fault2 user pid update now) = Some ErrForbidden
         \<longleftrightarrow> Subject user \<noteq> []"
  using assms
  by (auto simp add: Update_def Retrieve_def GetContext_def no_row_def scan_def zero_Product_def
        ExecUpdate_def Let_def split: list.splits option.splits)

text \<open>
  C1. The claim: a caller without the admin role whose subject differs from the owner
  of the product gets \<^verbatim>\<open>ErrForbidden\<close> from \<^verbatim>\<open>Update\<close>, and an admin or the owner is not
  rejected as forbidden. The code at the owner: user \<^verbatim>\<open>u1\<close>, without the admin role,
  updates the chair whose row has \<^verbatim>\<open>user_id = u1\<close>, and \<^verbatim>\<open>Update\<close> returns
  \<^verbatim>\<open>ErrForbidden\<close>.
\<close>

theorem Update_by_owner_Forbidden:
  "Subject owner_u1 = p_user_id chair_row \<and> p_product_id chair_row = chair_id
   \<and> products chair_db = [chair_row]
   \<and> fst (Update canonical_uuid chair_db None None owner_u1 chair_id rename_to_stool 7)
       = Some ErrForbidden"
  by (simp add: Update_def Retrieve_def GetContext_def canonical_chair_id chair_db_def
      chair_row_def owner_u1_def scan_def zero_Product_def HasRole_def RoleAdmin_def)

text \<open>
  C3. The claim: for an existing product and its owner or an admin, \<^verbatim>\<open>Update\<close> changes
  the fields present in the partial update, keeps the absent ones and sets the updated
  timestamp to \<^verbatim>\<open>now\<close>. The code at the owner: after user \<^verbatim>\<open>u1\<close> renames their chair
  at time 7, the row is as before, its name \<^verbatim>\<open>Chair\<close> and its updated timestamp 1.
\<close>

theorem Update_by_owner_changes_nothing:
  "products (snd (Update canonical_uuid chair_db None None owner_u1 chair_id rename_to_stool 7))
     = [chair_row]
   \<and> p_name chair_row = ''Chair'' \<and> p_date_updated chair_row = 1
   \<and> UpdateProduct.Name rename_to_stool = Some ''Stool''"
  by (simp add: Update_def Retrieve_def GetContext_def canonical_chair_id chair_db_def
      chair_row_def owner_u1_def scan_def zero_Product_def HasRole_def RoleAdmin_def send_def
      rename_to_stool_def)

section \<open>Identifiers that do not parse, identifiers without a row\<close>

text \<open>
  C2. For an identifier that parses and has no row in \<^verbatim>\<open>products\<close>, \<^verbatim>\<open>Update\<close> returns
  \<^verbatim>\<open>ErrNotFound\<close> when the store answers the select; whatever the store answers it does
  not return \<^verbatim>\<open>ErrForbidden\<close>, and its result is the same for every caller: the role
  and ownership check is not reached.
\<close>

theorem Update_missing_NotFound_before_authorization:
  assumes "uuid_Parse pid" and "no_row db pid"
  shows "fst (Update uuid_Parse db None fault2 user pid update now) = Some ErrNotFound
       \<and> fst (Update uuid_Parse db fault1 fault2 user pid update now) \<noteq> Some ErrForbidden
       \<and> Update uuid_Parse db fault1 fault2 user pid update now =
           Update uuid_Parse db fault1 fault2 user' pid update now"
  using assms
  by (simp add: Update_def Retrieve_def GetContext_def no_row_def split: option.splits)

theorem Update_missing_witness:
  "canonical_uuid other_id \<and> no_row chair_db other_id
   \<and> fst (Update canonical_uuid chair_db None None stranger_u2 other_id rename_to_stool 7)
       = Some ErrNotFound"
  using Update_missing_NotFound_before_authorization [where uuid_Parse = canonical_uuid
      and pid = other_id and db = chair_db and ?fault1.0 = None and ?fault2.0 = None
      and user = stranger_u2 and user' = stranger_u2 and update = rename_to_stool and now = 7]
    canonical_other_id no_row_other by simp

text \<open>
  C4. For an identifier that does not parse, \<^verbatim>\<open>Retrieve\<close>, \<^verbatim>\<open>Delete\<close> and \<^verbatim>\<open>Update\<close> each
  return \<^verbatim>\<open>ErrInvalidID\<close> and hand the store back as it was, its list of statements sent
  included: no statement is sent, and the result does not depend on the rows or on what
  the store would have answered.
\<close>

theorem malformed_id_InvalidID_no_query:
  assumes "\<not> uuid_Parse pid"
  shows "Retrieve uuid_Parse db fault pid = (Inl ErrInvalidID, db)
       \<and> Delete uuid_Parse db fault pid = (Some ErrInvalidID, db)
       \<and> Update uuid_Parse db fault1 fault2 user pid update now = (Some ErrInvalidID, db)"
  using assms by (simp add: Retrieve_def Delete_def Update_def)

theorem malformed_id_witness:
  "\<not> canonical_uuid ''abc''
   \<and> Retrieve canonical_uuid chair_db None ''abc'' = (Inl ErrInvalidID, chair_db)
   \<and> Delete canonical_uuid chair_db None ''abc'' = (Some ErrInvalidID, chair_db)
   \<and> Update canonical_uuid chair_db None None admin_u3 ''abc'' rename_to_stool 7
       = (Some ErrInvalidID, chair_db)"
  using malformed_id_InvalidID_no_query [where uuid_Parse = canonical_uuid and pid = "''abc''"
      and db = chair_db and fault = None and ?fault1.0 = None and ?fault2.0 = None
      and user = admin_u3 and update = rename_to_stool and now = 7]
    not_canonical_abc by simp

text \<open>
  C5. For an identifier that parses and has no row in \<^verbatim>\<open>products\<close>, the store answering,
  \<^verbatim>\<open>Retrieve\<close> and \<^verbatim>\<open>Update\<close> return \<^verbatim>\<open>ErrNotFound\<close>, while \<^verbatim>\<open>Delete\<close> returns no error
  and leaves the rows of \<^verbatim>\<open>products\<close> and \<^verbatim>\<open>sales\<close> as they were.
\<close>

theorem missing_row_NotFound_but_Delete_succeeds:
  assumes "uuid_Parse pid" and "no_row db pid"
  shows "fst (Retrieve uuid_Parse db None pid) = Inl ErrNotFound
       \<and> fst (Update uuid_Parse db None fault2 user pid update now) = Some ErrNotFound
       \<and> fst (Delete uuid_Parse db None pid) = None
       \<and> products (snd (Delete uuid_Parse db None pid)) = products db
       \<and> sales (snd (Delete uuid_Parse db None pid)) = sales db"
  using assms
  by (simp add: Update_def Retrieve_def GetContext_def Delete_def ExecDelete_def send_def
      no_row_def filter_neq_id)

theorem missing_row_witness:
  "canonical_uuid other_id \<and> no_row chair_db other_id
   \<and> fst (Retrieve canonical_uuid chair_db None other_id) = Inl ErrNotFound
   \<and> fst (Delete canonical_uuid chair_db None other_id) = None
   \<and> products (snd (Delete canonical_uuid chair_db None other_id)) = [chair_row]"
  using missing_row_NotFound_but_Delete_succeeds [where uuid_Parse = canonical_uuid
      and pid = other_id and db = chair_db and ?fault2.0 = None
      and user = stranger_u2 and update = rename_to_stool and now = 7]
    canonical_other_id no_row_other by (simp add: chair_db_def)

section \<open>Create\<close>

text \<open>
  C6. When the store accepts the \<^verbatim>\<open>INSERT\<close>, \<^verbatim>\<open>Create\<close> returns, for every caller and
  every input, the product whose identifier is the newly generated \<^verbatim>\<open>new_id\<close>, whose
  owner is the caller's subject, whose name, cost and quantity are the input's and whose
  two timestamps are \<^verbatim>\<open>now\<close>; the row with these seven values is added to \<^verbatim>\<open>products\<close>.
\<close>

theorem Create_returns_new_product:
  "fst (Create db None new_id user np now) =
     Inr \<lparr>ID = new_id, Name = NewProduct.Name np, Cost = NewProduct.Cost np,
          Quantity = NewProduct.Quantity np, UserID = Subject user, Sold = 0, Revenue = 0,
          DateCreated = now, DateUpdated = now\<rparr>
   \<and> products (snd (Create db None new_id user np now)) =
       products db @ [\<lparr>p_product_id = new_id, p_name = NewProduct.Name np,
          p_cost = NewProduct.Cost np, p_quantity = NewProduct.Quantity np,
          p_user_id = Subject user, p_date_created = now, p_date_updated = now\<rparr>]"
  by (simp add: Create_def ExecInsert_def send_def)

text \<open>
  C7. Round trip: when the generated identifier parses and no sale refers to it, the
  store answering, \<^verbatim>\<open>Create\<close> returns a product and \<^verbatim>\<open>Retrieve\<close> of its identifier on the
  store that \<^verbatim>\<open>Create\<close> left returns a product with that identifier, \<^verbatim>\<open>Sold = 0\<close> and
  \<^verbatim>\<open>Revenue = 0\<close>.
\<close>

theorem Create_then_Retrieve_no_sales:
  assumes "uuid_Parse new_id" and "no_sales db new_id"
  shows "\<exists>p db1 p' db2.
           Create db None new_id user np now = (Inr p, db1)
         \<and> Retrieve uuid_Parse db1 None (ID p) = (Inr p', db2)
         \<and> ID p' = ID p \<and> Sold p' = 0 \<and> Revenue p' = 0"
proof -
  let ?p = "\<lparr>ID = new_id, Name = NewProduct.Name np, Cost = NewProduct.Cost np,
          Quantity = NewProduct.Quantity np, UserID = Subject user, Sold = 0, Revenue = 0,
          DateCreated = now, DateUpdated = now\<rparr>"
  let ?row = "\<lparr>p_product_id = new_id, p_name = NewProduct.Name np,
          p_cost = NewProduct.Cost np, p_quantity = NewProduct.Quantity np,
          p_user_id = Subject user, p_date_created = now, p_date_updated = now\<rparr>"
  let ?db1 = "(send db (INSERT_product ?row))\<lparr>products := products db @ [?row]\<rparr>"
  have created: "Create db None new_id user np now = (Inr ?p, ?db1)"
    by (simp add: Create_def ExecInsert_def)
  have "filter (\<lambda>r. p_product_id r = new_id) (products ?db1) \<noteq> []"
    by simp
  then obtain r rs where rows: "filter (\<lambda>r. p_product_id r = new_id) (products ?db1) = r # rs"
    by (cases "filter (\<lambda>r. p_product_id r = new_id) (products ?db1)") auto
  then have "r \<in> set (filter (\<lambda>r. p_product_id r = new_id) (products ?db1))"
    by simp
  then have rid: "p_product_id r = new_id"
    by auto
  have same_sales: "sales ?db1 = sales db"
    by (simp add: send_def)
  have retrieved: "Retrieve uuid_Parse ?db1 None new_id =
      (Inr (scan ?db1 r), send ?db1 (SELECT_product new_id))"
    using assms(1) rows by (simp add: Retrieve_def GetContext_def)
  have "ID (scan ?db1 r) = new_id" "Sold (scan ?db1 r) = 0" "Revenue (scan ?db1 r) = 0"
    using assms(2) rid same_sales
    by (simp_all add: scan_def sold_of_def revenue_of_def no_sales_def)
  with created retrieved show ?thesis by simp
qed

theorem Create_then_Retrieve_witness:
  "canonical_uuid other_id \<and> no_sales chair_db other_id
   \<and> (\<exists>p db1 p' db2.
         Create chair_db None other_id owner_u1 new_chair 7 = (Inr p, db1)
       \<and> Retrieve canonical_uuid db1 None (ID p) = (Inr p', db2)
       \<and> ID p' = ID p \<and> Sold p' = 0 \<and> Revenue p' = 0)"
  using Create_then_Retrieve_no_sales [where uuid_Parse = canonical_uuid and new_id = other_id
      and db = chair_db and user = owner_u1 and np = new_chair and now = 7]
    canonical_other_id no_sales_chair_db by simp

section \<open>The shutdown signal\<close>

text \<open>
  When the chain returns a flagged error and the shutdown channel is full, the function
  blocks in the send: it does not return, and has put nothing in the channel.
\<close>

lemma Handle_fn_full_channel_blocks:
  assumes "flagged (fst (h ((r_Context r)\<lparr>KeyValues :=
                        Some \<lparr>StatusCode = 0, Start = now, TraceID = trace_id\<rparr>\<rparr>) w r db))"
      and "\<not> length (buf (shutdown a)) < cap (shutdown a)"
  shows "Handle_fn a h trace_id now w r db = None"
  using assms
  by (auto simp add: Handle_fn_def SignalShutdown_def chan_send_def flagged_def Let_def
        split: prod.splits option.splits)

lemma full_channel_blocks_example:
  "Handle_fn full_app chain_integrity ''t1'' 7 fresh_writer bare_request chair_db = None"
  by (rule Handle_fn_full_channel_blocks)
     (simp_all add: flagged_def chain_integrity_def IsShutdown_def full_app_def main_shutdown_def)

text \<open>
  C8. When the shutdown channel has room, the function that \<^verbatim>\<open>Handle\<close> registers returns
  and has sent \<^verbatim>\<open>SIGSTOP\<close> on the channel, once, if the handler chain returned an error that
  \<^verbatim>\<open>IsShutdown\<close> flags, and nothing if the chain returned no error or an error that is
  not flagged. When the chain returns no flagged error the function returns and leaves
  the channel as it was, whether it has room or not. The proof does not look into
  \<^verbatim>\<open>IsShutdown\<close>: the statement holds for whatever errors it flags.
\<close>

theorem shutdown_signal_iff_flagged:
  "(length (buf (shutdown a)) < cap (shutdown a) \<longrightarrow>
      map_option (\<lambda>res. shutdown (fst res)) (Handle_fn a h trace_id now w r db) =
        Some ((shutdown a)\<lparr>buf := buf (shutdown a) @
                (if flagged (fst (h ((r_Context r)\<lparr>KeyValues :=
                        Some \<lparr>StatusCode = 0, Start = now, TraceID = trace_id\<rparr>\<rparr>) w r db))
                 then [SIGSTOP] else [])\<rparr>))
   \<and> (\<not> flagged (fst (h ((r_Context r)\<lparr>KeyValues :=
                        Some \<lparr>StatusCode = 0, Start = now, TraceID = trace_id\<rparr>\<rparr>) w r db)) \<longrightarrow>
      map_option (\<lambda>res. shutdown (fst res)) (Handle_fn a h trace_id now w r db) =
        Some (shutdown a))"
  by (auto simp add: Handle_fn_def SignalShutdown_def chan_send_def flagged_def Let_def
        split: prod.splits option.splits)

theorem shutdown_signal_witness:
  "length (buf (shutdown fresh_app)) < cap (shutdown fresh_app)
   \<and> flagged (fst (chain_integrity ((r_Context bare_request)\<lparr>KeyValues :=
                        Some \<lparr>StatusCode = 0, Start = 7, TraceID = ''t1''\<rparr>\<rparr>)
                      fresh_writer bare_request chair_db))
   \<and> map_option (\<lambda>res. buf (shutdown (fst res)))
        (Handle_fn fresh_app chain_integrity ''t1'' 7 fresh_writer bare_request chair_db)
       = Some [SIGSTOP]
   \<and> \<not> flagged (fst (chain_plain ((r_Context bare_request)\<lparr>KeyValues :=
                        Some \<lparr>StatusCode = 0, Start = 7, TraceID = ''t1''\<rparr>\<rparr>)
                      fresh_writer bare_request chair_db))
   \<and> map_option (\<lambda>res. buf (shutdown (fst res)))
        (Handle_fn full_app chain_plain ''t1'' 7 fresh_writer bare_request chair_db)
       = Some [SIGTERM]"
proof -
  have room: "length (buf (shutdown fresh_app)) < cap (shutdown fresh_app)"
    by (simp add: fresh_app_def main_shutdown_def)
  have f: "flagged (fst (chain_integrity ((r_Context bare_request)\<lparr>KeyValues :=
                        Some \<lparr>StatusCode = 0, Start = 7, TraceID = ''t1''\<rparr>\<rparr>)
                      fresh_writer bare_request chair_db))"
    by (simp add: flagged_def chain_integrity_def IsShutdown_def)
  have n: "\<not> flagged (fst (chain_plain ((r_Context bare_request)\<lparr>KeyValues :=
                        Some \<lparr>StatusCode = 0, Start = 7, TraceID = ''t1''\<rparr>\<rparr>)
                      fresh_writer bare_request chair_db))"
    by (simp add: flagged_def chain_plain_def IsShutdown_def)
  have "map_option (\<lambda>res. shutdown (fst res))
          (Handle_fn fresh_app chain_integrity ''t1'' 7 fresh_writer bare_request chair_db)
        = Some ((shutdown fresh_app)\<lparr>buf := buf (shutdown fresh_app) @ [SIGSTOP]\<rparr>)"
    using shutdown_signal_iff_flagged [where a = fresh_app and h = chain_integrity
        and trace_id = "''t1''" and now = 7 and w = fresh_writer and r = bare_request
        and db = chair_db] room f by simp
  then have sent: "map_option (\<lambda>res. buf (shutdown (fst res)))
          (Handle_fn fresh_app chain_integrity ''t1'' 7 fresh_writer bare_request chair_db)
        = Some [SIGSTOP]"
    by (auto simp add: fresh_app_def main_shutdown_def)
  have "map_option (\<lambda>res. shutdown (fst res))
          (Handle_fn full_app chain_plain ''t1'' 7 fresh_writer bare_request chair_db)
        = Some (shutdown full_app)"
    using shutdown_signal_iff_flagged [where a = full_app and h = chain_plain
        and trace_id = "''t1''" and now = 7 and w = fresh_writer and r = bare_request
        and db = chair_db] n by simp
  then have kept: "map_option (\<lambda>res. buf (shutdown (fst res)))
          (Handle_fn full_app chain_plain ''t1'' 7 fresh_writer bare_request chair_db)
        = Some [SIGTERM]"
    by (auto simp add: full_app_def main_shutdown_def)
  from room f sent n kept show ?thesis by simp
qed

section \<open>Delete and the caller\<close>

lemma Delete_reown:
  "Delete uuid_Parse (reown g db) fault pid =
     (case Delete uuid_Parse db fault pid of (e, db') \<Rightarrow> (e, reown g db'))"
  by (simp add: Delete_def ExecDelete_def reown_def send_def reown_filter split: option.splits)

lemma Delete_removes:
  "uuid_Parse pid \<Longrightarrow> fst (Delete uuid_Parse db None pid) = None
     \<and> no_row (snd (Delete uuid_Parse db None pid)) pid"
  by (simp add: Delete_def ExecDelete_def send_def no_row_def)

lemma handlers_Delete_claims:
  "handlers_Delete uuid_Parse json_Marshal fault (ctx\<lparr>auth_Key := k\<rparr>) w r db =
     (case handlers_Delete uuid_Parse json_Marshal fault ctx w r db of
        (e, ctx', w', db') \<Rightarrow> (e, ctx'\<lparr>auth_Key := k\<rparr>, w', db'))"
  by (simp add: handlers_Delete_def Respond_def Let_def split: prod.splits option.splits)

text \<open>
  C9. Deleting checks no ownership. The handler \<^verbatim>\<open>Delete\<close> gives the same error, the same
  response and the same store whatever claims its context holds; the operation \<^verbatim>\<open>Delete\<close>
  of the product package takes no claims, and renaming the owners of the products
  changes neither its error nor the rows it leaves, their owners apart; and for an
  identifier that parses, the store answering, it returns no error and leaves no row
  with that identifier, whoever owns it. The admin-role requirement of the route is
  middleware of the route table, outside the handler.
\<close>

theorem Delete_ignores_caller_and_owner:
  "handlers_Delete uuid_Parse json_Marshal fault (ctx\<lparr>auth_Key := k\<rparr>) w r db =
     (case handlers_Delete uuid_Parse json_Marshal fault ctx w r db of
        (e, ctx', w', db') \<Rightarrow> (e, ctx'\<lparr>auth_Key := k\<rparr>, w', db'))
   \<and> Delete uuid_Parse (reown g db) fault pid =
     (case Delete uuid_Parse db fault pid of (e, db') \<Rightarrow> (e, reown g db'))
   \<and> (uuid_Parse pid \<longrightarrow>
        fst (Delete uuid_Parse db None pid) = None
        \<and> no_row (snd (Delete uuid_Parse db None pid)) pid)"
  using handlers_Delete_claims Delete_reown Delete_removes by blast

theorem Delete_by_stranger_witness:
  "canonical_uuid chair_id \<and> p_user_id chair_row \<noteq> Subject stranger_u2
   \<and> handlers_Delete canonical_uuid marshal_ok None (no_claims_ctx\<lparr>auth_Key := Some stranger_u2\<rparr>)
       fresh_writer bare_request chair_db =
     (case handlers_Delete canonical_uuid marshal_ok None no_claims_ctx fresh_writer bare_request
             chair_db of
        (e, ctx', w', db') \<Rightarrow> (e, ctx'\<lparr>auth_Key := Some stranger_u2\<rparr>, w', db'))
   \<and> fst (Delete canonical_uuid chair_db None chair_id) = None
   \<and> no_row (snd (Delete canonical_uuid chair_db None chair_id)) chair_id"
  using Delete_ignores_caller_and_owner [where uuid_Parse = canonical_uuid
      and json_Marshal = marshal_ok and fault = None and ctx = no_claims_ctx
      and k = "Some stranger_u2" and w = fresh_writer and r = bare_request and db = chair_db
      and g = "\<lambda>u. u" and pid = chair_id]
    canonical_chair_id by (simp add: chair_row_def stranger_u2_def)

section \<open>Handlers without claims in the context\<close>

text \<open>
  C10. With no claims in the context, the handler \<^verbatim>\<open>Create\<close> returns the error made by
  \<^verbatim>\<open>web.NewShutdownError\<close>, which \<^verbatim>\<open>IsShutdown\<close> flags, and the handler \<^verbatim>\<open>Update\<close> returns
  a plain \<^verbatim>\<open>errors.New\<close> error, which it does not flag. Run by the function that \<^verbatim>\<open>Handle\<close>
  registers, on a request whose context has no claims, the first makes it send \<^verbatim>\<open>SIGSTOP\<close>
  on the shutdown channel when the channel has room, and with the second it returns and
  leaves the channel as it was. \<^verbatim>\<open>RespondError\<close> answers the
  error of \<^verbatim>\<open>Update\<close> with status 500: it records 500 in the request's \<^verbatim>\<open>Values\<close>, and
  writes it as the status when nothing was written before and the body encodes.
\<close>

theorem missing_claims_Create_shutdown_Update_plain:
  assumes "auth_Key ctx = None" and "auth_Key (r_Context r) = None"
  shows "fst (handlers_Create json_Marshal Decode_np now new_id fault ctx w r db)
           = Some (NewShutdownError ''auth claim is not in context'')
       \<and> fst (handlers_Update uuid_Parse json_Marshal Decode_up now fault1 fault2 ctx w r db)
           = Some (errors_New ''claims is not in context'')
       \<and> IsShutdown (NewShutdownError ''auth claim is not in context'')
       \<and> \<not> IsShutdown (errors_New ''claims is not in context'')
       \<and> (length (buf (shutdown a)) < cap (shutdown a) \<longrightarrow>
            map_option (\<lambda>res. shutdown (fst res))
              (Handle_fn a (handlers_Create json_Marshal Decode_np now new_id fault)
                 trace_id start w r db)
              = Some ((shutdown a)\<lparr>buf := buf (shutdown a) @ [SIGSTOP]\<rparr>))
       \<and> map_option (\<lambda>res. shutdown (fst res))
            (Handle_fn a (handlers_Update uuid_Parse json_Marshal Decode_up now fault1 fault2)
               trace_id start w r db)
            = Some (shutdown a)
       \<and> (KeyValues ctx = Some vs \<longrightarrow>
            KeyValues (fst (snd (RespondError json_Marshal ctx w
                                   (errors_New ''claims is not in context''))))
              = Some (vs\<lparr>StatusCode := 500\<rparr>))
       \<and> (KeyValues ctx = Some vs \<and> status w = None
            \<and> json_Marshal (ErrorResponseVal \<lparr>Error = ''Internal Server Error'', Fields = []\<rparr>)
                = Inr data
            \<longrightarrow> status (snd (snd (RespondError json_Marshal ctx w
                                   (errors_New ''claims is not in context''))))
              = Some 500)"
proof -
  have c: "\<And>c. auth_Key c = None \<Longrightarrow>
      handlers_Create json_Marshal Decode_np now new_id fault c w r db
        = (Some (NewShutdownError ''auth claim is not in context''), c, w, db)"
    by (simp add: handlers_Create_def)
  have u: "\<And>c. auth_Key c = None \<Longrightarrow>
      handlers_Update uuid_Parse json_Marshal Decode_up now fault1 fault2 c w r db
        = (Some (errors_New ''claims is not in context''), c, w, db)"
    by (simp add: handlers_Update_def)
  have s: "IsShutdown (NewShutdownError ''auth claim is not in context'')"
    by (simp add: IsShutdown_def)
  have n: "\<not> IsShutdown (errors_New ''claims is not in context'')"
    by (simp add: IsShutdown_def)
  have hc: "length (buf (shutdown a)) < cap (shutdown a) \<longrightarrow>
            map_option (\<lambda>res. shutdown (fst res))
              (Handle_fn a (handlers_Create json_Marshal Decode_np now new_id fault)
                 trace_id start w r db)
              = Some ((shutdown a)\<lparr>buf := buf (shutdown a) @ [SIGSTOP]\<rparr>)"
    using assms(2) s by (simp add: Handle_fn_def c SignalShutdown_def chan_send_def)
  have hu: "map_option (\<lambda>res. shutdown (fst res))
            (Handle_fn a (handlers_Update uuid_Parse json_Marshal Decode_up now fault1 fault2)
               trace_id start w r db)
            = Some (shutdown a)"
    using assms(2) n by (simp add: Handle_fn_def u)
  have r1: "KeyValues ctx = Some vs \<longrightarrow>
            KeyValues (fst (snd (RespondError json_Marshal ctx w
                                   (errors_New ''claims is not in context''))))
              = Some (vs\<lparr>StatusCode := 500\<rparr>)"
    by (simp add: RespondError_def Respond_def Let_def split: sum.splits option.splits)
  have r2: "KeyValues ctx = Some vs \<and> status w = None
            \<and> json_Marshal (ErrorResponseVal \<lparr>Error = ''Internal Server Error'', Fields = []\<rparr>)
                = Inr data
            \<longrightarrow> status (snd (snd (RespondError json_Marshal ctx w
                                   (errors_New ''claims is not in context''))))
              = Some 500"
    by (simp add: RespondError_def Respond_def WriteHeader_def Let_def
        split: sum.splits option.splits)
  from c [OF assms(1)] u [OF assms(1)] s n hc hu r1 r2 show ?thesis
    by simp
qed

theorem missing_claims_witness:
  "auth_Key no_claims_ctx = None \<and> auth_Key (r_Context bare_request) = None
   \<and> fst (handlers_Create marshal_ok decode_new_chair 7 other_id None no_claims_ctx fresh_writer
            bare_request chair_db)
       = Some (NewShutdownError ''auth claim is not in context'')
   \<and> fst (handlers_Update canonical_uuid marshal_ok decode_rename 7 None None no_claims_ctx
            fresh_writer bare_request chair_db)
       = Some (errors_New ''claims is not in context'')
   \<and> length (buf (shutdown fresh_app)) < cap (shutdown fresh_app)
   \<and> map_option (\<lambda>res. shutdown (fst res))
        (Handle_fn fresh_app (handlers_Create marshal_ok decode_new_chair 7 other_id None)
           ''t1'' 7 fresh_writer bare_request chair_db)
       = Some \<lparr>buf = [SIGSTOP], cap = 1\<rparr>
   \<and> map_option (\<lambda>res. shutdown (fst res))
        (Handle_fn fresh_app (handlers_Update canonical_uuid marshal_ok decode_rename 7 None None)
           ''t1'' 7 fresh_writer bare_request chair_db)
       = Some \<lparr>buf = [], cap = 1\<rparr>
   \<and> status (snd (snd (RespondError marshal_ok no_claims_ctx fresh_writer
                          (errors_New ''claims is not in context'')))) = Some 500"
  using missing_claims_Create_shutdown_Update_plain [where ctx = no_claims_ctx
      and r = bare_request and json_Marshal = marshal_ok and Decode_np = decode_new_chair
      and Decode_up = decode_rename and uuid_Parse = canonical_uuid and now = 7
      and new_id = other_id and fault = None and ?fault1.0 = None and ?fault2.0 = None
      and w = fresh_writer and db = chair_db and a = fresh_app and trace_id = "''t1''"
      and start = 7 and vs = "\<lparr>StatusCode = 0, Start = 0, TraceID = ''t1''\<rparr>"
      and data = "''{}''"]
  by (simp add: no_claims_ctx_def bare_request_def fresh_writer_def fresh_app_def marshal_ok_def
      main_shutdown_def)

section \<open>Update by an admin\<close>

lemma filter_single:
  assumes "filter P xs = [r]" and "x \<in> set xs" and "P x"
  shows "x = r"
proof -
  from assms(2,3) have "x \<in> set (filter P xs)" by simp
  then show ?thesis unfolding assms(1) by simp
qed

text \<open>
  X1. For a caller with the admin role, an identifier that parses and has exactly one row,
  the store answering both statements, \<^verbatim>\<open>Update\<close> returns no error; in the row with that
  identifier each of name, cost and quantity takes the value present in the partial update
  and keeps its value when absent, and the updated timestamp is \<^verbatim>\<open>now\<close>; the identifier,
  the owner and the creation timestamp of that row, every other row and the sales are as
  before.
\<close>

theorem Update_by_admin_merges_present_fields:
  assumes "uuid_Parse pid" and "HasRole user RoleAdmin"
      and "filter (\<lambda>r. p_product_id r = pid) (products db) = [r]"
  shows "fst (Update uuid_Parse db None None user pid update now) = None
       \<and> products (snd (Update uuid_Parse db None None user pid update now)) =
           map (\<lambda>x. if p_product_id x = pid
                     then x\<lparr>p_name := (case UpdateProduct.Name update of
                                          Some n \<Rightarrow> n | None \<Rightarrow> p_name x),
                            p_cost := (case UpdateProduct.Cost update of
                                          Some c \<Rightarrow> c | None \<Rightarrow> p_cost x),
                            p_quantity := (case UpdateProduct.Quantity update of
                                          Some q \<Rightarrow> q | None \<Rightarrow> p_quantity x),
                            p_date_updated := now\<rparr>
                     else x) (products db)
       \<and> sales (snd (Update uuid_Parse db None None user pid update now)) = sales db"
proof -
  let ?p = "merge update now (scan db r)"
  let ?new = "\<lambda>x. if p_product_id x = pid
                     then x\<lparr>p_name := (case UpdateProduct.Name update of
                                          Some n \<Rightarrow> n | None \<Rightarrow> p_name x),
                            p_cost := (case UpdateProduct.Cost update of
                                          Some c \<Rightarrow> c | None \<Rightarrow> p_cost x),
                            p_quantity := (case UpdateProduct.Quantity update of
                                          Some q \<Rightarrow> q | None \<Rightarrow> p_quantity x),
                            p_date_updated := now\<rparr>
                     else x"
  have upd: "Update uuid_Parse db None None user pid update now =
      ExecUpdate (send db (SELECT_product pid)) None pid
        (Name ?p) (Cost ?p) (Quantity ?p) (DateUpdated ?p)"
    using assms by (simp add: Update_def Retrieve_def GetContext_def ExecUpdate_def Let_def)
  have vals:
    "Name ?p = (case UpdateProduct.Name update of Some n \<Rightarrow> n | None \<Rightarrow> p_name r)"
    "Cost ?p = (case UpdateProduct.Cost update of Some c \<Rightarrow> c | None \<Rightarrow> p_cost r)"
    "Quantity ?p = (case UpdateProduct.Quantity update of Some q \<Rightarrow> q | None \<Rightarrow> p_quantity r)"
    "DateUpdated ?p = now"
    by (simp_all add: merge_def scan_def Let_def split: option.splits)
  have rows: "map (set_columns pid (Name ?p) (Cost ?p) (Quantity ?p) (DateUpdated ?p))
                (products db) = map ?new (products db)"
  proof (rule map_cong [OF refl])
    fix x assume x: "x \<in> set (products db)"
    show "set_columns pid (Name ?p) (Cost ?p) (Quantity ?p) (DateUpdated ?p) x = ?new x"
    proof (cases "p_product_id x = pid")
      case True
      have "x = r"
        using assms(3) x True by (rule filter_single)
      with True show ?thesis by (auto simp add: set_columns_def vals)
    next
      case False
      then show ?thesis by (simp add: set_columns_def)
    qed
  qed
  show ?thesis
    unfolding upd using rows by (simp add: ExecUpdate_def send_def)
qed

theorem Update_by_admin_witness:
  "canonical_uuid chair_id \<and> HasRole admin_u3 RoleAdmin
   \<and> fst (Update canonical_uuid chair_db None None admin_u3 chair_id rename_to_stool 7) = None
   \<and> products (snd (Update canonical_uuid chair_db None None admin_u3 chair_id rename_to_stool 7))
       = [chair_row\<lparr>p_name := ''Stool'', p_date_updated := 7\<rparr>]"
  using Update_by_admin_merges_present_fields [where uuid_Parse = canonical_uuid
      and pid = chair_id and user = admin_u3 and db = chair_db and r = chair_row
      and update = rename_to_stool and now = 7]
    canonical_chair_id
  by (simp add: HasRole_def RoleAdmin_def admin_u3_def chair_db_def chair_row_def
      rename_to_stool_def)

end
